theory Spec2Isabelle
  imports Main "HOL-Library.Sublist"
begin

section \<open>The chat handler of \<^verbatim>\<open>wishing_star/OpenAIHandler.py\<close>\<close>

text \<open>
  The module keeps one chat history per user and forwards every request to an external
  completion service behind a global minimum-interval gate. Python mutates the objects in
  place and raises exceptions; here every operation takes the object and returns the
  updated one, and \<open>chat\<close> returns its outcome (an error or the reply) together with the
  handler as the call leaves it, so that what an exception leaves behind is visible.
  Timestamps are Python's unbounded integers, hence \<open>int\<close>.
\<close>

subsection \<open>Constants\<close>

definition CHAT_RESET_TS :: int where
  "CHAT_RESET_TS = 10 * 60 * 1000"

text \<open>
  In the source only the first string literal is part of the assignment; the two literals
  on the following lines are expression statements of their own.
\<close>

definition OPENAI_SYS_INIT_MESSAGE :: string where
  "OPENAI_SYS_INIT_MESSAGE =
     ''Now, you are playing the role as the Pokemon `Jirachi` and you will''"

subsection \<open>UserChatHistory\<close>

text \<open>An entry of \<open>chat_history\<close>: a dictionary with the two keys \<open>role\<close> and \<open>content\<close>.\<close>

record message =
  role :: string
  content :: string

record UserChatHistory =
  uid :: int
  last_communicate_ts :: int
  chat_history :: "message list"

text \<open>
  \<open>__init__\<close> reads the clock through \<open>get_current_ts()\<close>, which lives outside this
  module: the value it returns is the parameter \<open>now\<close>.
\<close>

definition UserChatHistory_init :: "int \<Rightarrow> int \<Rightarrow> UserChatHistory" where
  "UserChatHistory_init u now =
     \<lparr>uid = u, last_communicate_ts = now,
      chat_history = [\<lparr>role = ''system'', content = OPENAI_SYS_INIT_MESSAGE\<rparr>]\<rparr>"

text \<open>
  \<open>get_current_chat\<close> returns the list it has just extended, and the object so mutated.
  The slice \<open>[:1]\<close> is \<open>take 1\<close>; \<open>startswith\<close> is \<open>prefix\<close>.
\<close>

definition get_current_chat ::
  "UserChatHistory \<Rightarrow> string \<Rightarrow> int \<Rightarrow> message list \<times> UserChatHistory" where
  "get_current_chat self msg request_ts =
     (let self1 = (if last_communicate_ts self - request_ts > CHAT_RESET_TS
                   then self\<lparr>chat_history := take 1 (chat_history self)\<rparr>
                   else self);
          msg1 = (if \<not> prefix ''Jirachi, '' msg then ''Jirachi, '' @ msg else msg);
          self2 = self1\<lparr>chat_history := chat_history self1 @ [\<lparr>role = ''user'', content = msg1\<rparr>]\<rparr>
      in (chat_history self2, self2))"

definition update_response :: "UserChatHistory \<Rightarrow> string \<Rightarrow> int \<Rightarrow> UserChatHistory" where
  "update_response self response response_ts =
     (let self1 = self\<lparr>last_communicate_ts := response_ts\<rparr>
      in self1\<lparr>chat_history := chat_history self1 @ [\<lparr>role = ''assistant'', content = response\<rparr>]\<rparr>)"

subsection \<open>OpenAIHandler\<close>

text \<open>
  The handler's fields that decide its behaviour. The logger, the API key (stored in the
  client library) and the floating-point sampling temperature are passed on and never
  read back, and are left out.
\<close>

record OpenAIHandler =
  last_success_request_ts :: int
  minimum_request_period :: int
  model :: string
  chat_history_db :: "int \<rightharpoonup> UserChatHistory"

definition OpenAIHandler_init :: "bool \<Rightarrow> OpenAIHandler" where
  "OpenAIHandler_init using_gpt_4 =
     \<lparr>last_success_request_ts = 0,
      minimum_request_period = 5 * 1000,
      model = (if using_gpt_4 then ''gpt-4'' else ''gpt-3.5-turbo''),
      chat_history_db = Map.empty\<rparr>"

text \<open>
  What \<open>openai.ChatCompletion.create\<close> returns, as far as \<open>chat\<close> reads it: the content of
  each choice's message (\<open>None\<close> is Python's \<open>None\<close>) and the two usage counters.
\<close>

record usage_counters =
  prompt_tokens :: int
  completion_tokens :: int

record response =
  choices :: "string option list"
  usage :: usage_counters

text \<open>
  The exceptions a call of \<open>chat\<close> can end with: the two it raises itself, the
  \<open>IndexError\<close> of \<open>response["choices"][0]\<close> on an empty list, and whatever the client
  library raises, which is not caught.
\<close>

datatype error =
  FrequentRequestRateException string
  | Exception string
  | IndexError
  | OpenAIError string

text \<open>
  Lines 100 to 102: the entry of \<open>uid\<close> is created when it is missing, and read. The
  constructor reads the clock again; \<open>init_ts\<close> is the value of that reading.
\<close>

definition lookup_history :: "OpenAIHandler \<Rightarrow> int \<Rightarrow> int \<Rightarrow> UserChatHistory \<times> OpenAIHandler" where
  "lookup_history self u init_ts =
     (case chat_history_db self u of
        None \<Rightarrow>
          (let c = UserChatHistory_init u init_ts
           in (c, self\<lparr>chat_history_db := (chat_history_db self)(u \<mapsto> c)\<rparr>))
      | Some c \<Rightarrow> (c, self))"

text \<open>
  \<open>chat\<close>. The completion service is the parameter \<open>create\<close>, from the model name and the
  messages to an exception of the client library or a response; \<open>request_ts\<close>, \<open>init_ts\<close>
  and \<open>response_ts\<close> are the values of the successive readings of the clock (the second
  one happens only when a history is created). The history object is shared with the
  dictionary, so every change of it is written back under \<open>u\<close>. The argument
  \<open>get_current_chat(msg, request_ts)\<close> is evaluated before the service is called, so the
  user turn is stored whatever the service does. The usage counters are read for the log
  only, after the \<open>None\<close> check, and the two log calls have no effect on the handler.
\<close>

definition chat ::
  "(string \<Rightarrow> message list \<Rightarrow> string + response) \<Rightarrow> int \<Rightarrow> int \<Rightarrow> int \<Rightarrow>
   OpenAIHandler \<Rightarrow> string \<Rightarrow> int \<Rightarrow> (error + string) \<times> OpenAIHandler" where
  "chat create request_ts init_ts response_ts self msg u =
     (if request_ts - last_success_request_ts self \<le> minimum_request_period self
      then (Inl (FrequentRequestRateException ''OpenAIHandler: Requests Too Frequent''), self)
      else
        let (hist, self1) = lookup_history self u init_ts;
            (messages, hist1) = get_current_chat hist msg request_ts;
            self2 = self1\<lparr>chat_history_db := (chat_history_db self1)(u \<mapsto> hist1)\<rparr>
        in case create (model self2) messages of
             Inl e \<Rightarrow> (Inl (OpenAIError e), self2)
           | Inr resp \<Rightarrow>
               (case choices resp of
                  [] \<Rightarrow> (Inl IndexError, self2)
                | None # _ \<Rightarrow>
                    (Inl (Exception ''None Response received from OpenAI Chat Request.''), self2)
                | Some response_msg # _ \<Rightarrow>
                    (let self3 = self2\<lparr>last_success_request_ts := response_ts\<rparr>;
                         hist2 = update_response hist1 response_msg response_ts
                     in (Inr response_msg,
                         self3\<lparr>chat_history_db := (chat_history_db self3)(u \<mapsto> hist2)\<rparr>))))"

subsection \<open>Auxiliary notions for the statements\<close>

text \<open>
  The invariant of a history: it is not empty and starts with the system message.
\<close>

definition history_inv :: "UserChatHistory \<Rightarrow> bool" where
  "history_inv self =
     (case chat_history self of
        [] \<Rightarrow> False
      | m # _ \<Rightarrow> m = \<lparr>role = ''system'', content = OPENAI_SYS_INIT_MESSAGE\<rparr>)"

text \<open>
  The two methods that mutate a history, as a datatype of calls, so that an arbitrary
  sequence of calls can be run on an object.
\<close>

datatype history_op = GetCurrentChat string int | UpdateResponse string int

fun apply_history_op :: "UserChatHistory \<Rightarrow> history_op \<Rightarrow> UserChatHistory" where
  "apply_history_op self (GetCurrentChat msg request_ts) =
     snd (get_current_chat self msg request_ts)"
| "apply_history_op self (UpdateResponse response response_ts) =
     update_response self response response_ts"

text \<open>
  A completion service for the concrete runs below: it answers every request with one
  choice of the given content.
\<close>

definition reply_with :: "string option \<Rightarrow> string \<Rightarrow> message list \<Rightarrow> string + response" where
  "reply_with c m ms = Inr \<lparr>choices = [c], usage = \<lparr>prompt_tokens = 3, completion_tokens = 1\<rparr>\<rparr>"

text \<open>A history with one completed exchange, last answered at time 700000.\<close>

definition answered_history :: UserChatHistory where
  "answered_history =
     \<lparr>uid = 1, last_communicate_ts = 700000,
      chat_history =
        [\<lparr>role = ''system'', content = OPENAI_SYS_INIT_MESSAGE\<rparr>,
         \<lparr>role = ''user'', content = ''Jirachi, hi''\<rparr>,
         \<lparr>role = ''assistant'', content = ''hello''\<rparr>]\<rparr>"

section \<open>Helper lemmas\<close>

lemma history_inv_init: "history_inv (UserChatHistory_init u now)"
  by (simp add: history_inv_def UserChatHistory_init_def)

lemma get_current_chat_history:
  "chat_history (snd (get_current_chat self msg request_ts)) =
     (if last_communicate_ts self - request_ts > CHAT_RESET_TS
      then take 1 (chat_history self) else chat_history self) @
     [\<lparr>role = ''user'',
       content = (if prefix ''Jirachi, '' msg then msg else ''Jirachi, '' @ msg)\<rparr>]"
  by (simp add: get_current_chat_def Let_def)

lemma get_current_chat_fst:
  "fst (get_current_chat self msg request_ts) =
     chat_history (snd (get_current_chat self msg request_ts))"
  by (simp add: get_current_chat_def Let_def)

lemma history_inv_take: "history_inv self \<Longrightarrow>
    take 1 (chat_history self) = [\<lparr>role = ''system'', content = OPENAI_SYS_INIT_MESSAGE\<rparr>]"
  by (cases "chat_history self") (simp_all add: history_inv_def)

lemma history_inv_get_current_chat:
  "history_inv self \<Longrightarrow> history_inv (snd (get_current_chat self msg request_ts))"
  by (cases "chat_history self") (simp_all add: history_inv_def get_current_chat_history)

lemma history_inv_update_response:
  "history_inv self \<Longrightarrow> history_inv (update_response self response response_ts)"
  by (cases "chat_history self") (simp_all add: history_inv_def update_response_def Let_def)

lemma history_inv_apply: "history_inv self \<Longrightarrow> history_inv (apply_history_op self c)"
  by (cases c) (simp_all add: history_inv_get_current_chat history_inv_update_response)

lemma history_inv_foldl:
  "history_inv self \<Longrightarrow> history_inv (foldl apply_history_op self ops)"
  by (induction ops arbitrary: self) (simp_all add: history_inv_apply)

lemma history_inv_answered: "history_inv answered_history"
  by (simp add: history_inv_def answered_history_def)

lemma lookup_history_update:
  "snd (lookup_history self u init_ts)\<lparr>chat_history_db := X\<rparr> = self\<lparr>chat_history_db := X\<rparr>"
  by (cases "chat_history_db self u") (simp_all add: lookup_history_def Let_def)

lemma lookup_history_db_upd:
  "(chat_history_db (snd (lookup_history self u init_ts)))(u \<mapsto> h) =
     (chat_history_db self)(u \<mapsto> h)"
  by (cases "chat_history_db self u") (simp_all add: lookup_history_def Let_def)

lemma lookup_history_model: "model (snd (lookup_history self u init_ts)) = model self"
  by (cases "chat_history_db self u") (simp_all add: lookup_history_def Let_def)

lemma chat_limited:
  "request_ts - last_success_request_ts self \<le> minimum_request_period self \<Longrightarrow>
   chat create request_ts init_ts response_ts self msg u =
     (Inl (FrequentRequestRateException ''OpenAIHandler: Requests Too Frequent''), self)"
  by (simp add: chat_def)

text \<open>
  Past the rate check, \<open>chat\<close> in terms of the handler it was called on: the history of
  \<open>u\<close> as \<open>get_current_chat\<close> leaves it is stored in every outcome, and a reply adds the
  assistant turn and moves \<open>last_success_request_ts\<close>.
\<close>

lemma chat_passed:
  assumes "\<not> request_ts - last_success_request_ts self \<le> minimum_request_period self"
  shows "chat create request_ts init_ts response_ts self msg u =
     (let hist1 = snd (get_current_chat (fst (lookup_history self u init_ts)) msg request_ts);
          self2 = self\<lparr>chat_history_db := (chat_history_db self)(u \<mapsto> hist1)\<rparr>
      in case create (model self) (chat_history hist1) of
           Inl e \<Rightarrow> (Inl (OpenAIError e), self2)
         | Inr resp \<Rightarrow>
             (case choices resp of
                [] \<Rightarrow> (Inl IndexError, self2)
              | None # _ \<Rightarrow>
                  (Inl (Exception ''None Response received from OpenAI Chat Request.''), self2)
              | Some response_msg # _ \<Rightarrow>
                  (Inr response_msg,
                   self\<lparr>last_success_request_ts := response_ts,
                        chat_history_db := (chat_history_db self)
                          (u \<mapsto> update_response hist1 response_msg response_ts)\<rparr>)))"
proof -
  define hist1 where
    "hist1 = snd (get_current_chat (fst (lookup_history self u init_ts)) msg request_ts)"
  define self2 where "self2 = self\<lparr>chat_history_db := (chat_history_db self)(u \<mapsto> hist1)\<rparr>"
  have a: "snd (lookup_history self u init_ts)
             \<lparr>chat_history_db :=
                (chat_history_db (snd (lookup_history self u init_ts)))(u \<mapsto> hist1)\<rparr> = self2"
    by (simp only: lookup_history_update lookup_history_db_upd self2_def)
  have m: "model self2 = model self"
    by (simp add: self2_def)
  have b: "self2\<lparr>last_success_request_ts := response_ts\<rparr>
             \<lparr>chat_history_db :=
                (chat_history_db (self2\<lparr>last_success_request_ts := response_ts\<rparr>))(u \<mapsto> h)\<rparr>
           = self\<lparr>last_success_request_ts := response_ts,
                  chat_history_db := (chat_history_db self)(u \<mapsto> h)\<rparr>" for h
    by (simp add: self2_def)
  have "chat create request_ts init_ts response_ts self msg u =
        (case create (model self) (chat_history hist1) of
           Inl e \<Rightarrow> (Inl (OpenAIError e), self2)
         | Inr resp \<Rightarrow>
             (case choices resp of
                [] \<Rightarrow> (Inl IndexError, self2)
              | None # _ \<Rightarrow>
                  (Inl (Exception ''None Response received from OpenAI Chat Request.''), self2)
              | Some response_msg # _ \<Rightarrow>
                  (Inr response_msg,
                   self\<lparr>last_success_request_ts := response_ts,
                        chat_history_db := (chat_history_db self)
                          (u \<mapsto> update_response hist1 response_msg response_ts)\<rparr>)))"
    unfolding chat_def using assms
    apply (simp only: if_False Let_def case_prod_beta get_current_chat_fst)
    apply (simp only: hist1_def [symmetric] a m b)
    done
  then show ?thesis
    by (simp only: Let_def hist1_def self2_def)
qed

text \<open>
  The first call on a fresh handler, at time 6000 with the answer at 6500, evaluated for
  both kinds of content.
\<close>

lemma eval_first_chat:
  "chat (reply_with c) 6000 6001 6500 (OpenAIHandler_init False) ''hi'' 1 =
     (case c of
        None \<Rightarrow> (Inl (Exception ''None Response received from OpenAI Chat Request.''),
          \<lparr>last_success_request_ts = 0, minimum_request_period = 5000,
           model = ''gpt-3.5-turbo'',
           chat_history_db = [1 \<mapsto> \<lparr>uid = 1, last_communicate_ts = 6001, chat_history =
             [\<lparr>role = ''system'', content = OPENAI_SYS_INIT_MESSAGE\<rparr>,
              \<lparr>role = ''user'', content = ''Jirachi, hi''\<rparr>]\<rparr>]\<rparr>)
      | Some r \<Rightarrow> (Inr r,
          \<lparr>last_success_request_ts = 6500, minimum_request_period = 5000,
           model = ''gpt-3.5-turbo'',
           chat_history_db = [1 \<mapsto> \<lparr>uid = 1, last_communicate_ts = 6500, chat_history =
             [\<lparr>role = ''system'', content = OPENAI_SYS_INIT_MESSAGE\<rparr>,
              \<lparr>role = ''user'', content = ''Jirachi, hi''\<rparr>,
              \<lparr>role = ''assistant'', content = r\<rparr>]\<rparr>]\<rparr>))"
  by (cases c)
     (simp_all add: chat_def reply_with_def OpenAIHandler_init_def lookup_history_def
        UserChatHistory_init_def get_current_chat_def update_response_def Let_def
        CHAT_RESET_TS_def)

section \<open>Properties of UserChatHistory\<close>

text \<open>
  C8. \<open>update_response\<close> sets \<open>last_communicate_ts\<close> to the response timestamp and appends
  exactly one assistant turn with the response as its content at the end of the history;
  the turns that were there stay, in place and unmodified, and the user id is kept.
\<close>

theorem update_response_appends:
  "last_communicate_ts (update_response self response response_ts) = response_ts \<and>
   chat_history (update_response self response response_ts) =
     chat_history self @ [\<lparr>role = ''assistant'', content = response\<rparr>] \<and>
   uid (update_response self response response_ts) = uid self"
  by (simp add: update_response_def)

text \<open>
  C9. \<open>get_current_chat\<close> changes only the history: the timestamp of the last
  communication and the user id are the ones before the call.
\<close>

theorem get_current_chat_frame:
  "last_communicate_ts (snd (get_current_chat self msg request_ts)) = last_communicate_ts self \<and>
   uid (snd (get_current_chat self msg request_ts)) = uid self"
  by (simp add: get_current_chat_def Let_def)

text \<open>
  C3. \<open>get_current_chat\<close> compares the last communication timestamp minus the request
  timestamp with the reset time of 600000 ms, in that order. When the difference is
  greater, the history is cut to its first element before the user turn is appended, and
  on a history that satisfies the invariant that element is the system turn, so the
  result is the system turn followed by the new user turn; otherwise every turn is kept
  and the user turn is appended.
\<close>

theorem get_current_chat_reset:
  "chat_history (snd (get_current_chat self msg request_ts)) =
     (if last_communicate_ts self - request_ts > 600000
      then take 1 (chat_history self) else chat_history self) @
     [\<lparr>role = ''user'',
       content = (if prefix ''Jirachi, '' msg then msg else ''Jirachi, '' @ msg)\<rparr>] \<and>
   (history_inv self \<longrightarrow>
      take 1 (chat_history self) = [\<lparr>role = ''system'', content = OPENAI_SYS_INIT_MESSAGE\<rparr>] \<and>
      length (take 1 (chat_history self)) = 1)"
proof -
  have "chat_history (snd (get_current_chat self msg request_ts)) =
     (if last_communicate_ts self - request_ts > 600000
      then take 1 (chat_history self) else chat_history self) @
     [\<lparr>role = ''user'',
       content = (if prefix ''Jirachi, '' msg then msg else ''Jirachi, '' @ msg)\<rparr>]"
    by (simp add: get_current_chat_history CHAT_RESET_TS_def)
  moreover have "take 1 (chat_history self) =
      [\<lparr>role = ''system'', content = OPENAI_SYS_INIT_MESSAGE\<rparr>] \<and>
      length (take 1 (chat_history self)) = 1" if "history_inv self"
    using history_inv_take [OF that] by simp
  ultimately show ?thesis by blast
qed

theorem get_current_chat_reset_witness:
  "history_inv answered_history \<and>
   chat_history (snd (get_current_chat answered_history ''again'' 10)) =
     [\<lparr>role = ''system'', content = OPENAI_SYS_INIT_MESSAGE\<rparr>,
      \<lparr>role = ''user'', content = ''Jirachi, again''\<rparr>] \<and>
   chat_history (snd (get_current_chat answered_history ''again'' 100000)) =
     [\<lparr>role = ''system'', content = OPENAI_SYS_INIT_MESSAGE\<rparr>,
      \<lparr>role = ''user'', content = ''Jirachi, hi''\<rparr>,
      \<lparr>role = ''assistant'', content = ''hello''\<rparr>,
      \<lparr>role = ''user'', content = ''Jirachi, again''\<rparr>]"
  using get_current_chat_reset [of answered_history "''again''" 10]
    get_current_chat_reset [of answered_history "''again''" 100000]
    history_inv_answered
  by (simp add: answered_history_def)

text \<open>
  C4. The user turn that \<open>get_current_chat\<close> stores is the last element of the history.
  When the message does not start with \<open>Jirachi, \<close> its content is that prefix followed
  by the message; when the message starts with it, the content is the message as given.
\<close>

theorem get_current_chat_prefix:
  "(\<not> prefix ''Jirachi, '' m \<longrightarrow>
      last (chat_history (snd (get_current_chat self m request_ts))) =
        \<lparr>role = ''user'', content = ''Jirachi, '' @ m\<rparr>) \<and>
   (prefix ''Jirachi, '' m \<longrightarrow>
      last (chat_history (snd (get_current_chat self m request_ts))) =
        \<lparr>role = ''user'', content = m\<rparr>)"
  by (simp add: get_current_chat_history)

theorem get_current_chat_prefix_witness:
  "last (chat_history (snd (get_current_chat (UserChatHistory_init 1 0) ''hi'' 10))) =
     \<lparr>role = ''user'', content = ''Jirachi, hi''\<rparr> \<and>
   last (chat_history (snd (get_current_chat (UserChatHistory_init 1 0) ''Jirachi, hi'' 10))) =
     \<lparr>role = ''user'', content = ''Jirachi, hi''\<rparr>"
  using get_current_chat_prefix [of "''hi''" "UserChatHistory_init 1 0" 10]
    get_current_chat_prefix [of "''Jirachi, hi''" "UserChatHistory_init 1 0" 10]
  by simp

text \<open>
  C5. A history satisfies the invariant when it is created, and every sequence of calls
  of \<open>get_current_chat\<close> and \<open>update_response\<close> keeps it: the history is never empty and
  its first element is the system turn.
\<close>

theorem history_inv_preserved:
  "history_inv (UserChatHistory_init u now) \<and>
   history_inv (foldl apply_history_op (UserChatHistory_init u now) ops) \<and>
   (history_inv self \<longrightarrow>
      history_inv (foldl apply_history_op self ops) \<and>
      chat_history (foldl apply_history_op self ops) \<noteq> [] \<and>
      chat_history (foldl apply_history_op self ops) ! 0 =
        \<lparr>role = ''system'', content = OPENAI_SYS_INIT_MESSAGE\<rparr>)"
proof -
  have "chat_history h \<noteq> [] \<and>
        chat_history h ! 0 = \<lparr>role = ''system'', content = OPENAI_SYS_INIT_MESSAGE\<rparr>"
    if "history_inv h" for h
    using that by (cases "chat_history h") (simp_all add: history_inv_def)
  then show ?thesis
    using history_inv_init [of u now] history_inv_foldl by blast
qed

theorem history_inv_preserved_witness:
  "history_inv answered_history \<and>
   chat_history (foldl apply_history_op answered_history
     [GetCurrentChat ''again'' 10, UpdateResponse ''yes'' 20, GetCurrentChat ''more'' 30]) ! 0 =
     \<lparr>role = ''system'', content = OPENAI_SYS_INIT_MESSAGE\<rparr>"
  using history_inv_preserved [of 1 0
      "[GetCurrentChat ''again'' 10, UpdateResponse ''yes'' 20, GetCurrentChat ''more'' 30]"
      answered_history]
    history_inv_answered
  by simp

section \<open>Properties of OpenAIHandler\<close>

text \<open>
  C10. A call of \<open>chat\<close> that ends with \<open>FrequentRequestRateException\<close> leaves the handler
  as it was: no history is created or changed and \<open>last_success_request_ts\<close> keeps its
  value. That exception comes from the rate check alone, which precedes every mutation.
\<close>

theorem chat_rate_limited_unchanged:
  assumes "fst (chat create request_ts init_ts response_ts self msg u) =
             Inl (FrequentRequestRateException s)"
  shows "snd (chat create request_ts init_ts response_ts self msg u) = self \<and>
         request_ts - last_success_request_ts self \<le> minimum_request_period self"
proof (cases "request_ts - last_success_request_ts self \<le> minimum_request_period self")
  case True
  then show ?thesis by (simp add: chat_limited)
next
  case False
  have "fst (chat create request_ts init_ts response_ts self msg u) \<noteq>
          Inl (FrequentRequestRateException s)"
    by (simp add: chat_passed [OF False] Let_def split: sum.split list.split option.split)
  with assms show ?thesis by simp
qed

theorem chat_rate_limited_unchanged_witness:
  "fst (chat (reply_with (Some ''hello'')) 5000 5001 5500 (OpenAIHandler_init False) ''hi'' 1) =
     Inl (FrequentRequestRateException ''OpenAIHandler: Requests Too Frequent'') \<and>
   snd (chat (reply_with (Some ''hello'')) 5000 5001 5500 (OpenAIHandler_init False) ''hi'' 1) =
     OpenAIHandler_init False"
proof -
  have h: "fst (chat (reply_with (Some ''hello'')) 5000 5001 5500 (OpenAIHandler_init False) ''hi'' 1) =
     Inl (FrequentRequestRateException ''OpenAIHandler: Requests Too Frequent'')"
    by (simp add: chat_def OpenAIHandler_init_def)
  from chat_rate_limited_unchanged [OF h] h show ?thesis by simp
qed

text \<open>
  C1. Whenever the request timestamp minus \<open>last_success_request_ts\<close> is at most
  \<open>minimum_request_period\<close>, \<open>chat\<close> ends with \<open>FrequentRequestRateException\<close>, whoever the
  user is. The gate is one field of the handler for all users: after a call that returned
  a reply at time \<open>t1\<close> for a user \<open>u'\<close>, a call at a time within the period of \<open>t1\<close> is
  refused for every user \<open>u\<close>. The period is 5000 ms from the constructor on, and no call
  changes it.
\<close>

theorem chat_rate_limit_global:
  "(request_ts - last_success_request_ts self \<le> minimum_request_period self \<longrightarrow>
      fst (chat create request_ts init_ts response_ts self msg u) =
        Inl (FrequentRequestRateException ''OpenAIHandler: Requests Too Frequent'')) \<and>
   (chat create' t0 ti t1 self msg' u' = (Inr reply, self') \<and>
    request_ts - t1 \<le> minimum_request_period self' \<longrightarrow>
      fst (chat create request_ts init_ts response_ts self' msg u) =
        Inl (FrequentRequestRateException ''OpenAIHandler: Requests Too Frequent'')) \<and>
   minimum_request_period (snd (chat create request_ts init_ts response_ts self msg u)) =
     minimum_request_period self \<and>
   minimum_request_period (OpenAIHandler_init using_gpt_4) = 5000"
proof -
  have gate: "fst (chat create request_ts init_ts response_ts h msg u) =
        Inl (FrequentRequestRateException ''OpenAIHandler: Requests Too Frequent'')"
    if "request_ts - last_success_request_ts h \<le> minimum_request_period h" for h
    using that by (simp add: chat_limited)
  have success: "last_success_request_ts self' = t1"
    if "chat create' t0 ti t1 self msg' u' = (Inr reply, self')"
  proof (cases "t0 - last_success_request_ts self \<le> minimum_request_period self")
    case True
    with that show ?thesis by (simp add: chat_limited)
  next
    case False
    from that show ?thesis
      by (auto simp add: chat_passed [OF False] Let_def
          split: sum.splits list.splits option.splits)
  qed
  have period: "minimum_request_period (snd (chat create request_ts init_ts response_ts self msg u)) =
     minimum_request_period self"
  proof (cases "request_ts - last_success_request_ts self \<le> minimum_request_period self")
    case True
    then show ?thesis by (simp add: chat_limited)
  next
    case False
    show ?thesis
      by (simp add: chat_passed [OF False] Let_def split: sum.split list.split option.split)
  qed
  have init: "minimum_request_period (OpenAIHandler_init using_gpt_4) = 5000"
    by (simp add: OpenAIHandler_init_def)
  from gate [of self] gate [of self'] success period init show ?thesis
    by simp
qed

theorem chat_rate_limit_global_witness:
  "chat (reply_with (Some ''hello'')) 6000 6001 6500 (OpenAIHandler_init False) ''hi'' 1 =
     (Inr ''hello'',
      snd (chat (reply_with (Some ''hello'')) 6000 6001 6500 (OpenAIHandler_init False) ''hi'' 1)) \<and>
   fst (chat (reply_with (Some ''hello'')) 7000 7001 7500
          (snd (chat (reply_with (Some ''hello'')) 6000 6001 6500 (OpenAIHandler_init False) ''hi'' 1))
          ''hi'' 2) =
     Inl (FrequentRequestRateException ''OpenAIHandler: Requests Too Frequent'') \<and>
   fst (chat (reply_with (Some ''hello'')) 5000 5001 5500 (OpenAIHandler_init False) ''hi'' 3) =
     Inl (FrequentRequestRateException ''OpenAIHandler: Requests Too Frequent'')"
proof -
  let ?first = "chat (reply_with (Some ''hello'')) 6000 6001 6500 (OpenAIHandler_init False) ''hi'' 1"
  have early: "5000 - last_success_request_ts (OpenAIHandler_init False)
                 \<le> minimum_request_period (OpenAIHandler_init False)"
    by (simp add: OpenAIHandler_init_def)
  have replied: "?first = (Inr ''hello'', snd ?first)"
    by (simp add: eval_first_chat)
  have close: "7000 - 6500 \<le> minimum_request_period (snd ?first)"
    by (simp add: eval_first_chat)
  have other_user: "fst (chat (reply_with (Some ''hello'')) 7000 7001 7500 (snd ?first) ''hi'' 2) =
     Inl (FrequentRequestRateException ''OpenAIHandler: Requests Too Frequent'')"
    using chat_rate_limit_global
      [where create' = "reply_with (Some ''hello'')" and ?t0.0 = 6000 and ti = 6001
         and ?t1.0 = 6500 and self = "OpenAIHandler_init False" and msg' = "''hi''" and u' = 1
         and reply = "''hello''" and self' = "snd ?first"
         and create = "reply_with (Some ''hello'')" and request_ts = 7000 and init_ts = 7001
         and response_ts = 7500 and msg = "''hi''" and u = 2]
      replied close
    by blast
  have first_call: "fst (chat (reply_with (Some ''hello'')) 5000 5001 5500
       (OpenAIHandler_init False) ''hi'' 3) =
     Inl (FrequentRequestRateException ''OpenAIHandler: Requests Too Frequent'')"
    using chat_rate_limit_global
      [where self = "OpenAIHandler_init False" and request_ts = 5000 and init_ts = 5001
         and response_ts = 5500 and create = "reply_with (Some ''hello'')" and msg = "''hi''"
         and u = 3]
      early
    by blast
  from replied other_user first_call show ?thesis
    by blast
qed

text \<open>
  C2, counterexample. The service answers the first call on a fresh handler with the
  empty string: \<open>chat\<close> returns the empty string, and the history of the user ends with an
  assistant turn of empty content.
\<close>

theorem chat_empty_reply_succeeds:
  "fst (chat (reply_with (Some [])) 6000 6001 6500 (OpenAIHandler_init False) ''hi'' 1) =
     Inr [] \<and>
   map_option chat_history
     (chat_history_db
        (snd (chat (reply_with (Some [])) 6000 6001 6500 (OpenAIHandler_init False) ''hi'' 1))
        1) =
     Some [\<lparr>role = ''system'', content = OPENAI_SYS_INIT_MESSAGE\<rparr>,
           \<lparr>role = ''user'', content = ''Jirachi, hi''\<rparr>,
           \<lparr>role = ''assistant'', content = []\<rparr>]"
  by (simp add: eval_first_chat)

text \<open>
  C2, as amended. In a call of \<open>chat\<close> that passes the rate check and in which the service
  returns a response: when the content of the first choice's message is \<open>None\<close>, \<open>chat\<close>
  ends with the exception "None Response received from OpenAI Chat Request.", the
  history of the user is the one \<open>get_current_chat\<close> left (the history it started from,
  cut to its first element on a reset, with the new user turn as its last element and no
  assistant turn after it), and nothing else of the handler changes. When the content is
  a string, the empty one included, \<open>chat\<close> returns it and the assistant turn is appended.
\<close>

theorem chat_none_response:
  assumes "\<not> request_ts - last_success_request_ts self \<le> minimum_request_period self"
    and "create (model self)
           (fst (get_current_chat (fst (lookup_history self u init_ts)) msg request_ts)) =
         Inr resp"
  shows "(choices resp = None # rest \<longrightarrow>
            chat create request_ts init_ts response_ts self msg u =
              (Inl (Exception ''None Response received from OpenAI Chat Request.''),
               self\<lparr>chat_history_db := (chat_history_db self)
                 (u \<mapsto> snd (get_current_chat (fst (lookup_history self u init_ts)) msg request_ts))\<rparr>) \<and>
            chat_history
              (snd (get_current_chat (fst (lookup_history self u init_ts)) msg request_ts)) =
              (if last_communicate_ts (fst (lookup_history self u init_ts)) - request_ts > 600000
               then take 1 (chat_history (fst (lookup_history self u init_ts)))
               else chat_history (fst (lookup_history self u init_ts))) @
              [\<lparr>role = ''user'',
                content = (if prefix ''Jirachi, '' msg then msg else ''Jirachi, '' @ msg)\<rparr>]) \<and>
         (choices resp = Some r # rest \<longrightarrow>
            chat create request_ts init_ts response_ts self msg u =
              (Inr r,
               self\<lparr>last_success_request_ts := response_ts,
                    chat_history_db := (chat_history_db self)
                      (u \<mapsto> update_response
                         (snd (get_current_chat (fst (lookup_history self u init_ts)) msg request_ts))
                         r response_ts)\<rparr>))"
proof -
  from assms(2) have c: "create (model self)
      (chat_history (snd (get_current_chat (fst (lookup_history self u init_ts)) msg request_ts))) =
      Inr resp"
    by (simp only: get_current_chat_fst)
  have main: "chat create request_ts init_ts response_ts self msg u =
      (case choices resp of
         [] \<Rightarrow> (Inl IndexError,
           self\<lparr>chat_history_db := (chat_history_db self)
             (u \<mapsto> snd (get_current_chat (fst (lookup_history self u init_ts)) msg request_ts))\<rparr>)
       | None # _ \<Rightarrow>
           (Inl (Exception ''None Response received from OpenAI Chat Request.''),
            self\<lparr>chat_history_db := (chat_history_db self)
              (u \<mapsto> snd (get_current_chat (fst (lookup_history self u init_ts)) msg request_ts))\<rparr>)
       | Some response_msg # _ \<Rightarrow>
           (Inr response_msg,
            self\<lparr>last_success_request_ts := response_ts,
                 chat_history_db := (chat_history_db self)
                   (u \<mapsto> update_response
                      (snd (get_current_chat (fst (lookup_history self u init_ts)) msg request_ts))
                      response_msg response_ts)\<rparr>))"
    by (simp only: chat_passed [OF assms(1)] Let_def c sum.case)
  have none: "chat create request_ts init_ts response_ts self msg u =
      (Inl (Exception ''None Response received from OpenAI Chat Request.''),
       self\<lparr>chat_history_db := (chat_history_db self)
         (u \<mapsto> snd (get_current_chat (fst (lookup_history self u init_ts)) msg request_ts))\<rparr>)"
    if "choices resp = None # rest"
    by (simp only: main that list.case option.case)
  have some: "chat create request_ts init_ts response_ts self msg u =
      (Inr r,
       self\<lparr>last_success_request_ts := response_ts,
            chat_history_db := (chat_history_db self)
              (u \<mapsto> update_response
                 (snd (get_current_chat (fst (lookup_history self u init_ts)) msg request_ts))
                 r response_ts)\<rparr>)"
    if "choices resp = Some r # rest"
    by (simp only: main that list.case option.case)
  have hist: "chat_history
      (snd (get_current_chat (fst (lookup_history self u init_ts)) msg request_ts)) =
      (if last_communicate_ts (fst (lookup_history self u init_ts)) - request_ts > 600000
       then take 1 (chat_history (fst (lookup_history self u init_ts)))
       else chat_history (fst (lookup_history self u init_ts))) @
      [\<lparr>role = ''user'',
        content = (if prefix ''Jirachi, '' msg then msg else ''Jirachi, '' @ msg)\<rparr>]"
    by (simp add: get_current_chat_history CHAT_RESET_TS_def)
  from none some hist show ?thesis
    by blast
qed

theorem chat_none_response_witness:
  "chat (reply_with None) 6000 6001 6500 (OpenAIHandler_init False) ''hi'' 1 =
     (Inl (Exception ''None Response received from OpenAI Chat Request.''),
      (OpenAIHandler_init False)\<lparr>chat_history_db :=
         [1 \<mapsto> \<lparr>uid = 1, last_communicate_ts = 6001, chat_history =
             [\<lparr>role = ''system'', content = OPENAI_SYS_INIT_MESSAGE\<rparr>,
              \<lparr>role = ''user'', content = ''Jirachi, hi''\<rparr>]\<rparr>]\<rparr>)"
proof -
  have a: "\<not> 6000 - last_success_request_ts (OpenAIHandler_init False)
             \<le> minimum_request_period (OpenAIHandler_init False)"
    by (simp add: OpenAIHandler_init_def)
  have b: "reply_with None (model (OpenAIHandler_init False))
             (fst (get_current_chat (fst (lookup_history (OpenAIHandler_init False) 1 6001))
                ''hi'' 6000)) =
           Inr \<lparr>choices = [None], usage = \<lparr>prompt_tokens = 3, completion_tokens = 1\<rparr>\<rparr>"
    by (simp add: reply_with_def)
  from chat_none_response
         [where self = "OpenAIHandler_init False" and request_ts = 6000 and init_ts = 6001
            and response_ts = 6500 and create = "reply_with None" and msg = "''hi''" and u = 1
            and resp = "\<lparr>choices = [None], usage = \<lparr>prompt_tokens = 3, completion_tokens = 1\<rparr>\<rparr>"
            and rest = "[]", OF a b]
  show ?thesis
    by (simp add: OpenAIHandler_init_def lookup_history_def UserChatHistory_init_def
        get_current_chat_def Let_def CHAT_RESET_TS_def)
qed

text \<open>
  C6. When \<open>chat\<close> returns a reply, the history stored for the user ends with the user
  turn of the message (with the prefix put before it unless it starts with it) followed
  by the assistant turn whose content is the returned reply.
\<close>

theorem chat_success_round_trip:
  assumes "chat create request_ts init_ts response_ts self msg u = (Inr reply, self')"
  shows "\<exists>hist pre. chat_history_db self' u = Some hist \<and>
           chat_history hist =
             pre @ [\<lparr>role = ''user'',
                     content = (if prefix ''Jirachi, '' msg then msg else ''Jirachi, '' @ msg)\<rparr>,
                    \<lparr>role = ''assistant'', content = reply\<rparr>]"
proof (cases "request_ts - last_success_request_ts self \<le> minimum_request_period self")
  case True
  with assms show ?thesis by (simp add: chat_limited)
next
  case False
  let ?hist1 = "snd (get_current_chat (fst (lookup_history self u init_ts)) msg request_ts)"
  from assms have "chat_history_db self' u = Some (update_response ?hist1 reply response_ts)"
    by (auto simp add: chat_passed [OF False] Let_def
        split: sum.splits list.splits option.splits)
  moreover have "chat_history (update_response ?hist1 reply response_ts) =
      (if last_communicate_ts (fst (lookup_history self u init_ts)) - request_ts > CHAT_RESET_TS
       then take 1 (chat_history (fst (lookup_history self u init_ts)))
       else chat_history (fst (lookup_history self u init_ts))) @
      [\<lparr>role = ''user'',
        content = (if prefix ''Jirachi, '' msg then msg else ''Jirachi, '' @ msg)\<rparr>,
       \<lparr>role = ''assistant'', content = reply\<rparr>]"
    by (simp add: update_response_def Let_def get_current_chat_history)
  ultimately show ?thesis by blast
qed

theorem chat_success_round_trip_witness:
  "chat (reply_with (Some ''hello'')) 6000 6001 6500 (OpenAIHandler_init False) ''hi'' 1 =
     (Inr ''hello'',
      snd (chat (reply_with (Some ''hello'')) 6000 6001 6500 (OpenAIHandler_init False) ''hi'' 1)) \<and>
   (\<exists>hist pre.
      chat_history_db
        (snd (chat (reply_with (Some ''hello'')) 6000 6001 6500 (OpenAIHandler_init False) ''hi'' 1))
        1 = Some hist \<and>
      chat_history hist =
        pre @ [\<lparr>role = ''user'', content = ''Jirachi, hi''\<rparr>,
               \<lparr>role = ''assistant'', content = ''hello''\<rparr>])"
proof -
  let ?first = "chat (reply_with (Some ''hello'')) 6000 6001 6500 (OpenAIHandler_init False) ''hi'' 1"
  have replied: "?first = (Inr ''hello'', snd ?first)"
    by (simp add: eval_first_chat)
  from chat_success_round_trip [OF replied] replied show ?thesis
    by simp
qed

text \<open>
  C7. For a user without a history, in a call of \<open>chat\<close> that passes the rate check: the
  lookup step stores and returns a new history for that user whose only element is the
  system turn and whose \<open>last_communicate_ts\<close> is the clock reading of its constructor;
  when \<open>chat\<close> ends, however it ends, the dictionary has exactly one more key, the user,
  every other entry is as before, and the history of the user belongs to the user and
  still starts with the system turn. The entry that \<open>chat\<close> leaves is determined: when
  the call ends with an exception it is the new history with the user turn appended, its
  \<open>last_communicate_ts\<close> still the clock reading of the constructor; when the call
  returns a reply it is that history with the assistant turn appended and
  \<open>last_communicate_ts\<close> moved to the clock reading taken after the answer.
\<close>

theorem chat_creates_history:
  assumes "chat_history_db self u = None"
    and "\<not> request_ts - last_success_request_ts self \<le> minimum_request_period self"
  shows "lookup_history self u init_ts =
           (\<lparr>uid = u, last_communicate_ts = init_ts,
             chat_history = [\<lparr>role = ''system'', content = OPENAI_SYS_INIT_MESSAGE\<rparr>]\<rparr>,
            self\<lparr>chat_history_db := (chat_history_db self)
              (u \<mapsto> \<lparr>uid = u, last_communicate_ts = init_ts,
                     chat_history = [\<lparr>role = ''system'', content = OPENAI_SYS_INIT_MESSAGE\<rparr>]\<rparr>)\<rparr>) \<and>
         dom (chat_history_db (snd (chat create request_ts init_ts response_ts self msg u))) =
           insert u (dom (chat_history_db self)) \<and>
         (\<forall>v. v \<noteq> u \<longrightarrow>
            chat_history_db (snd (chat create request_ts init_ts response_ts self msg u)) v =
              chat_history_db self v) \<and>
         (\<exists>hist rest.
            chat_history_db (snd (chat create request_ts init_ts response_ts self msg u)) u =
              Some hist \<and>
            uid hist = u \<and>
            chat_history hist = \<lparr>role = ''system'', content = OPENAI_SYS_INIT_MESSAGE\<rparr> # rest) \<and>
         chat_history_db (snd (chat create request_ts init_ts response_ts self msg u)) u =
           (case fst (chat create request_ts init_ts response_ts self msg u) of
              Inl e \<Rightarrow>
                Some \<lparr>uid = u, last_communicate_ts = init_ts,
                      chat_history =
                        [\<lparr>role = ''system'', content = OPENAI_SYS_INIT_MESSAGE\<rparr>,
                         \<lparr>role = ''user'',
                          content = (if prefix ''Jirachi, '' msg then msg else ''Jirachi, '' @ msg)\<rparr>]\<rparr>
            | Inr reply \<Rightarrow>
                Some \<lparr>uid = u, last_communicate_ts = response_ts,
                      chat_history =
                        [\<lparr>role = ''system'', content = OPENAI_SYS_INIT_MESSAGE\<rparr>,
                         \<lparr>role = ''user'',
                          content = (if prefix ''Jirachi, '' msg then msg else ''Jirachi, '' @ msg)\<rparr>,
                         \<lparr>role = ''assistant'', content = reply\<rparr>]\<rparr>)"
proof -
  let ?new = "\<lparr>uid = u, last_communicate_ts = init_ts,
               chat_history = [\<lparr>role = ''system'', content = OPENAI_SYS_INIT_MESSAGE\<rparr>]\<rparr>"
  let ?asked = "\<lparr>uid = u, last_communicate_ts = init_ts,
      chat_history =
        [\<lparr>role = ''system'', content = OPENAI_SYS_INIT_MESSAGE\<rparr>,
         \<lparr>role = ''user'',
          content = (if prefix ''Jirachi, '' msg then msg else ''Jirachi, '' @ msg)\<rparr>]\<rparr>"
  let ?hist1 = "snd (get_current_chat (fst (lookup_history self u init_ts)) msg request_ts)"
  let ?out = "chat create request_ts init_ts response_ts self msg u"
  have look: "lookup_history self u init_ts =
      (?new, self\<lparr>chat_history_db := (chat_history_db self)(u \<mapsto> ?new)\<rparr>)"
    using assms(1) by (simp add: lookup_history_def UserChatHistory_init_def Let_def)
  have asked: "?hist1 = ?asked"
    by (simp add: look get_current_chat_def Let_def)
  have answered: "update_response ?hist1 r response_ts =
      \<lparr>uid = u, last_communicate_ts = response_ts,
       chat_history =
         [\<lparr>role = ''system'', content = OPENAI_SYS_INIT_MESSAGE\<rparr>,
          \<lparr>role = ''user'',
           content = (if prefix ''Jirachi, '' msg then msg else ''Jirachi, '' @ msg)\<rparr>,
          \<lparr>role = ''assistant'', content = r\<rparr>]\<rparr>" for r
    by (simp only: asked) (simp add: update_response_def Let_def)
  have entry: "chat_history_db (snd ?out) =
      (chat_history_db self)(u \<mapsto>
        (case fst ?out of Inl e \<Rightarrow> ?hist1 | Inr reply \<Rightarrow> update_response ?hist1 reply response_ts))"
  proof (cases "create (model self) (chat_history ?hist1)")
    case (Inl e)
    then show ?thesis
      by (simp add: chat_passed [OF assms(2)] Let_def)
  next
    case (Inr resp)
    show ?thesis
    proof (cases "choices resp")
      case Nil
      with Inr show ?thesis
        by (simp add: chat_passed [OF assms(2)] Let_def)
    next
      case (Cons c cs)
      with Inr show ?thesis
        by (cases c) (simp_all add: chat_passed [OF assms(2)] Let_def)
    qed
  qed
  have stored: "chat_history_db (snd ?out) u =
      Some (case fst ?out of Inl e \<Rightarrow> ?hist1 | Inr reply \<Rightarrow> update_response ?hist1 reply response_ts)"
    by (simp only: entry fun_upd_same)
  have exact: "chat_history_db (snd ?out) u =
      (case fst ?out of
         Inl e \<Rightarrow> Some ?asked
       | Inr reply \<Rightarrow>
           Some \<lparr>uid = u, last_communicate_ts = response_ts,
                 chat_history =
                   [\<lparr>role = ''system'', content = OPENAI_SYS_INIT_MESSAGE\<rparr>,
                    \<lparr>role = ''user'',
                     content = (if prefix ''Jirachi, '' msg then msg else ''Jirachi, '' @ msg)\<rparr>,
                    \<lparr>role = ''assistant'', content = reply\<rparr>]\<rparr>)"
  proof (cases "fst ?out")
    case (Inl e)
    then show ?thesis
      using stored asked by simp
  next
    case (Inr reply)
    then show ?thesis
      using stored answered [of reply] by simp
  qed
  have head: "\<exists>hist rest. chat_history_db (snd ?out) u = Some hist \<and> uid hist = u \<and>
      chat_history hist = \<lparr>role = ''system'', content = OPENAI_SYS_INIT_MESSAGE\<rparr> # rest"
    using exact by (cases "fst ?out") simp_all
  have keys: "dom (chat_history_db (snd ?out)) = insert u (dom (chat_history_db self))"
    by (simp only: entry dom_fun_upd option.distinct if_False)
  have others: "\<forall>v. v \<noteq> u \<longrightarrow> chat_history_db (snd ?out) v = chat_history_db self v"
    by (simp only: entry) simp
  from look keys others head exact show ?thesis
    by (intro conjI)
qed

theorem chat_creates_history_witness:
  "chat_history_db (OpenAIHandler_init False) 1 = None \<and>
   lookup_history (OpenAIHandler_init False) 1 6001 =
     (\<lparr>uid = 1, last_communicate_ts = 6001,
       chat_history = [\<lparr>role = ''system'', content = OPENAI_SYS_INIT_MESSAGE\<rparr>]\<rparr>,
      (OpenAIHandler_init False)\<lparr>chat_history_db :=
         [1 \<mapsto> \<lparr>uid = 1, last_communicate_ts = 6001,
                chat_history = [\<lparr>role = ''system'', content = OPENAI_SYS_INIT_MESSAGE\<rparr>]\<rparr>]\<rparr>) \<and>
   dom (chat_history_db
     (snd (chat (reply_with (Some ''hello'')) 6000 6001 6500 (OpenAIHandler_init False) ''hi'' 1))) =
     {1} \<and>
   chat_history_db
     (snd (chat (reply_with None) 6000 6001 6500 (OpenAIHandler_init False) ''hi'' 1)) 1 =
     Some \<lparr>uid = 1, last_communicate_ts = 6001,
           chat_history =
             [\<lparr>role = ''system'', content = OPENAI_SYS_INIT_MESSAGE\<rparr>,
              \<lparr>role = ''user'', content = ''Jirachi, hi''\<rparr>]\<rparr> \<and>
   chat_history_db
     (snd (chat (reply_with (Some ''hello'')) 6000 6001 6500 (OpenAIHandler_init False) ''hi'' 1)) 1 =
     Some \<lparr>uid = 1, last_communicate_ts = 6500,
           chat_history =
             [\<lparr>role = ''system'', content = OPENAI_SYS_INIT_MESSAGE\<rparr>,
              \<lparr>role = ''user'', content = ''Jirachi, hi''\<rparr>,
              \<lparr>role = ''assistant'', content = ''hello''\<rparr>]\<rparr>"
proof -
  have absent: "chat_history_db (OpenAIHandler_init False) 1 = None"
    by (simp add: OpenAIHandler_init_def)
  have passes: "\<not> 6000 - last_success_request_ts (OpenAIHandler_init False)
                  \<le> minimum_request_period (OpenAIHandler_init False)"
    by (simp add: OpenAIHandler_init_def)
  have none: "dom (chat_history_db (OpenAIHandler_init False)) = {}"
    by (simp add: OpenAIHandler_init_def)
  have upd: "(chat_history_db (OpenAIHandler_init False))(1 \<mapsto> h) = [1 \<mapsto> h]" for h
    by (simp add: OpenAIHandler_init_def)
  have failed: "fst (chat (reply_with None) 6000 6001 6500 (OpenAIHandler_init False) ''hi'' 1) =
      Inl (Exception ''None Response received from OpenAI Chat Request.'')"
    by (simp add: eval_first_chat)
  have replied: "fst (chat (reply_with (Some ''hello'')) 6000 6001 6500
      (OpenAIHandler_init False) ''hi'' 1) = Inr ''hello''"
    by (simp add: eval_first_chat)
  from chat_creates_history
         [where self = "OpenAIHandler_init False" and u = 1 and request_ts = 6000
            and init_ts = 6001 and response_ts = 6500
            and create = "reply_with (Some ''hello'')" and msg = "''hi''", OF absent passes]
    chat_creates_history
         [where self = "OpenAIHandler_init False" and u = 1 and request_ts = 6000
            and init_ts = 6001 and response_ts = 6500
            and create = "reply_with None" and msg = "''hi''", OF absent passes]
    absent none upd failed replied
  show ?thesis
    by simp
qed

end
